theory Spec2Isabelle
  imports Complex_Main
begin

section \<open>JavaScript values handled by the client\<close>

text \<open>
  The values of type \<open>any\<close> that flow through \<open>request\<close> are results of \<open>JSON.parse\<close>,
  the raw response text, or \<open>null\<close>. A JavaScript number is an IEEE double: a finite
  value (every double is a rational), negative zero, an infinity or NaN.
  \<open>undefined\<close> is \<open>None\<close> of \<open>jsval option\<close>.
\<close>

datatype number = Finite rat | NegZero | PosInfinity | NegInfinity | NaN

datatype jsval =
    JNull
  | JBool bool
  | JNum number
  | JStr string
  | JArr "jsval list"
  | JObj "(string \<times> jsval) list"

text \<open>ToBoolean: \<open>0\<close>, \<open>-0\<close>, \<open>NaN\<close>, \<open>""\<close>, \<open>null\<close>, \<open>false\<close> and \<open>undefined\<close> are falsy.\<close>

fun number_truthy :: "number \<Rightarrow> bool" where
  "number_truthy (Finite q) = (q \<noteq> 0)"
| "number_truthy NegZero = False"
| "number_truthy PosInfinity = True"
| "number_truthy NegInfinity = True"
| "number_truthy NaN = False"

fun truthy :: "jsval \<Rightarrow> bool" where
  "truthy JNull = False"
| "truthy (JBool b) = b"
| "truthy (JNum n) = number_truthy n"
| "truthy (JStr s) = (s \<noteq> [])"
| "truthy (JArr xs) = True"
| "truthy (JObj kvs) = True"

fun truthy_opt :: "jsval option \<Rightarrow> bool" where
  "truthy_opt None = False"
| "truthy_opt (Some v) = truthy v"

text \<open>
  Property read \<open>v.k\<close> for a key that no built-in prototype defines (\<open>detail\<close> and
  \<open>message\<close> are such keys): an object gives its own property or \<open>undefined\<close>; strings,
  numbers, booleans and arrays give \<open>undefined\<close>. On \<open>null\<close> the read would throw;
  \<open>request\<close> reads properties only behind the guard \<open>data &&\<close>.
\<close>

fun get_prop :: "jsval \<Rightarrow> string \<Rightarrow> jsval option" where
  "get_prop (JObj kvs) k = map_of kvs k"
| "get_prop v k = None"

text \<open>\<open>a || b\<close> on possibly undefined values.\<close>

definition js_or :: "jsval option \<Rightarrow> jsval option \<Rightarrow> jsval option" where
  "js_or a b = (if truthy_opt a then a else b)"

text \<open>
  What a thrown platform error or a rejected promise carries: its name and its message.
\<close>

datatype js_error = JsError string string

text \<open>
  The platform functions the code calls but does not define: \<open>JSON.parse\<close>
  (\<open>None\<close> when it throws a SyntaxError), \<open>JSON.stringify\<close>, the conversion of a number
  to a string, the TypeError that the engine throws when an object cannot be converted
  to a primitive value, and \<open>parseFloat\<close> / \<open>parseInt(s, 10)\<close>.
\<close>

record platform =
  JSON_parse :: "string \<Rightarrow> jsval option"
  JSON_stringify :: "jsval \<Rightarrow> string"
  Number_toString :: "number \<Rightarrow> string"
  conversion_TypeError :: js_error
  parseFloat :: "string \<Rightarrow> number"
  parseInt10 :: "string \<Rightarrow> number"

fun join_comma :: "string list \<Rightarrow> string" where
  "join_comma [] = []"
| "join_comma [s] = s"
| "join_comma (s # t # ss) = s @ '','' @ join_comma (t # ss)"

text \<open>
  ToString, which the \<open>Error\<close> constructor applies to its message argument. It can
  throw. An object is converted by its \<open>toString\<close> method, then its \<open>valueOf\<close> method:
  a parsed object without a property \<open>toString\<close> of its own inherits the method that
  gives \<open>[object Object]\<close>; one with such a property has a value there that is not
  callable, \<open>valueOf\<close> (its own, not callable, or the inherited one, which returns the
  object) gives no primitive either, and the conversion throws a TypeError. An array is
  joined with commas, its elements converted from left to right, \<open>null\<close> elements giving
  the empty string.
\<close>

fun ToString :: "platform \<Rightarrow> jsval \<Rightarrow> js_error + string"
  and ToString_elements :: "platform \<Rightarrow> jsval list \<Rightarrow> js_error + string list" where
  "ToString P JNull = Inr ''null''"
| "ToString P (JBool b) = Inr (if b then ''true'' else ''false'')"
| "ToString P (JNum n) = Inr (Number_toString P n)"
| "ToString P (JStr s) = Inr s"
| "ToString P (JArr xs) =
     (case ToString_elements P xs of
        Inl err \<Rightarrow> Inl err
      | Inr ss \<Rightarrow> Inr (join_comma ss))"
| "ToString P (JObj kvs) =
     (if map_of kvs ''toString'' = None then Inr ''[object Object]''
      else Inl (conversion_TypeError P))"
| "ToString_elements P [] = Inr []"
| "ToString_elements P (x # xs) =
     (case (if x = JNull then Inr [] else ToString P x) of
        Inl err \<Rightarrow> Inl err
      | Inr s \<Rightarrow>
          (case ToString_elements P xs of
             Inl err \<Rightarrow> Inl err
           | Inr ss \<Rightarrow> Inr (s # ss)))"

text \<open>The decimal digits of a status code, as the template literal prints it.\<close>

definition digit_char :: "nat \<Rightarrow> char" where
  "digit_char d = ''0123456789'' ! d"

fun decimal :: "nat \<Rightarrow> string" where
  "decimal n =
     (if n < 10 then [digit_char n]
      else decimal (n div 10) @ [digit_char (n mod 10)])"

declare decimal.simps [simp del]

section \<open>Configuration (src/config.ts)\<close>

text \<open>\<open>import.meta.env\<close> is a map from variable names to strings.\<close>

type_synonym env = "string \<rightharpoonup> string"

definition env_or :: "env \<Rightarrow> string \<Rightarrow> string \<Rightarrow> string" where
  "env_or e k d = (case e k of Some v \<Rightarrow> if v \<noteq> [] then v else d | None \<Rightarrow> d)"

definition API_BASE_URL :: "env \<Rightarrow> string" where
  "API_BASE_URL e = env_or e ''VITE_API_URL'' ''http://localhost:8000''"

definition AUTH_BASE_URL :: "env \<Rightarrow> string" where
  "AUTH_BASE_URL e = env_or e ''VITE_AUTH_API_URL'' ''http://localhost:8001''"

definition USERS_BASE_URL :: "env \<Rightarrow> string" where
  "USERS_BASE_URL e = env_or e ''VITE_USERS_API_URL'' ''http://localhost:8002''"

definition CATALOG_BASE_URL :: "env \<Rightarrow> string" where
  "CATALOG_BASE_URL e = env_or e ''VITE_CATALOG_API_URL'' ''http://localhost:8003''"

definition ORDERS_BASE_URL :: "env \<Rightarrow> string" where
  "ORDERS_BASE_URL e = env_or e ''VITE_ORDERS_API_URL'' ''http://localhost:8004''"

section \<open>Browser state: localStorage and the network\<close>

type_synonym storage = "string \<rightharpoonup> string"

definition getItem :: "storage \<Rightarrow> string \<Rightarrow> string option" where
  "getItem ls k = ls k"

definition removeItem :: "string \<Rightarrow> storage \<Rightarrow> storage" where
  "removeItem k ls = ls(k := None)"

text \<open>
  The second argument of \<open>fetch\<close>. A headers object is a map from names to values;
  an absent field is \<open>None\<close>. The field \<open>http_method\<close> is the source's \<open>method\<close>.
\<close>

record RequestInit =
  http_method :: "string option"
  headers :: "(string \<rightharpoonup> string) option"
  body :: "string option"

record fetch_call =
  url :: string
  init :: "RequestInit option"

text \<open>
  The outcome of one exchange. \<open>Failed err\<close>: \<open>await fetch(...)\<close> rejected with \<open>err\<close>.
  \<open>Responded st b\<close>: \<open>await fetch(...)\<close> resolved with a response of status \<open>st\<close>, and
  \<open>b\<close> is what reading its body gives: \<open>Inr txt\<close> when \<open>await resp.text()\<close> resolves
  with \<open>txt\<close>, \<open>Inl err\<close> when it rejects with \<open>err\<close>. An exchange that never settles
  has no outcome, and the caller then waits for ever; the properties below are about
  settled exchanges.
\<close>

datatype fetch_outcome = Failed js_error | Responded nat "js_error + string"

type_synonym network = "fetch_call \<Rightarrow> fetch_outcome"

text \<open>\<open>resp.ok\<close>: the status is in the range 200 to 299.\<close>

definition ok :: "nat \<Rightarrow> bool" where
  "ok st = (200 \<le> st \<and> st \<le> 299)"

text \<open>
  The state the code reads and writes: the durable storage, and the requests handed to
  \<open>fetch\<close> so far, oldest first.
\<close>

record world =
  localStorage :: storage
  sent :: "fetch_call list"

definition do_fetch :: "network \<Rightarrow> fetch_call \<Rightarrow> world \<Rightarrow> world \<times> fetch_outcome" where
  "do_fetch net c w = (w\<lparr>sent := sent w @ [c]\<rparr>, net c)"

section \<open>Session access (src/hooks/useAuth.ts)\<close>

text \<open>A string or \<open>null\<close> used as a condition: \<open>null\<close> and \<open>""\<close> are falsy.\<close>

fun str_truthy :: "string option \<Rightarrow> bool" where
  "str_truthy None = False"
| "str_truthy (Some s) = (s \<noteq> [])"

record auth =
  token :: "string option"
  username :: "string option"
  role :: string
  isAuthenticated :: bool

definition useAuth :: "world \<Rightarrow> auth" where
  "useAuth w =
     (let token = getItem (localStorage w) ''authToken'';
          username = getItem (localStorage w) ''authUsername'';
          role = (case getItem (localStorage w) ''authRole'' of
                    Some r \<Rightarrow> if r \<noteq> [] then r else ''user''
                  | None \<Rightarrow> ''user'')
      in \<lparr>token = token, username = username, role = role,
          isAuthenticated = str_truthy token\<rparr>)"

text \<open>The \<open>logout\<close> closure returned by \<open>useAuth\<close>.\<close>

definition logout :: "world \<Rightarrow> world" where
  "logout w =
     w\<lparr>localStorage :=
         removeItem ''authRole''
           (removeItem ''authUsername''
             (removeItem ''authToken'' (localStorage w)))\<rparr>"

section \<open>The API client (src/api/client.ts)\<close>

record ApiError =
  message :: string
  status :: nat
  data :: jsval

text \<open>
  What a call of \<open>request\<close> can throw: the \<open>ApiError\<close> it builds; the TypeError raised
  inside the constructor when the message cannot be converted to a string; or the
  rejection of \<open>fetch\<close> or of \<open>resp.text()\<close>, which no handler in \<open>request\<close> catches.
\<close>

datatype thrown = ApiError_thrown ApiError | Conversion_error js_error | Rejection js_error

text \<open>
  \<open>e instanceof ApiError\<close>, and the reads \<open>e.status\<close>, \<open>e.data\<close> (\<open>undefined\<close> on an error
  that is not an \<open>ApiError\<close>) and \<open>e.message\<close>.
\<close>

fun is_ApiError :: "thrown \<Rightarrow> bool" where
  "is_ApiError (ApiError_thrown e) = True"
| "is_ApiError (Conversion_error e) = False"
| "is_ApiError (Rejection e) = False"

fun thrown_status :: "thrown \<Rightarrow> nat option" where
  "thrown_status (ApiError_thrown e) = Some (status e)"
| "thrown_status (Conversion_error e) = None"
| "thrown_status (Rejection e) = None"

fun thrown_data :: "thrown \<Rightarrow> jsval option" where
  "thrown_data (ApiError_thrown e) = Some (data e)"
| "thrown_data (Conversion_error e) = None"
| "thrown_data (Rejection e) = None"

fun thrown_message :: "thrown \<Rightarrow> string" where
  "thrown_message (ApiError_thrown e) = message e"
| "thrown_message (Conversion_error (JsError n m)) = m"
| "thrown_message (Rejection (JsError n m)) = m"

text \<open>
  \<open>new ApiError(message, status, data)\<close>, lines 8 to 13, as the value that
  \<open>throw new ApiError(...)\<close> throws: \<open>super(message)\<close> converts the message with ToString;
  when that throws, the TypeError leaves the constructor and no \<open>ApiError\<close> exists.
\<close>

definition new_ApiError :: "platform \<Rightarrow> jsval \<Rightarrow> nat \<Rightarrow> jsval \<Rightarrow> thrown" where
  "new_ApiError P m st d =
     (case ToString P m of
        Inl err \<Rightarrow> Conversion_error err
      | Inr s \<Rightarrow> ApiError_thrown \<lparr>message = s, status = st, data = d\<rparr>)"

definition getAuthToken :: "world \<Rightarrow> string option" where
  "getAuthToken w = getItem (localStorage w) ''authToken''"

text \<open>
  Lines 24 to 39 of \<open>request\<close>: the URL, the headers object (the spread of
  \<open>options.headers || {}\<close> over the content type, then the bearer token when the stored
  token is truthy) and the arguments given to \<open>fetch\<close>.
\<close>

definition request_headers :: "world \<Rightarrow> RequestInit \<Rightarrow> (string \<rightharpoonup> string)" where
  "request_headers w options =
     (let headers0 = [''Content-Type'' \<mapsto> ''application/json''] ++
                       (case headers options of Some h \<Rightarrow> h | None \<Rightarrow> Map.empty);
          token = getAuthToken w
      in if str_truthy token
         then (case token of
                 Some t \<Rightarrow> headers0(''Authorization'' \<mapsto> ''Bearer '' @ t)
               | None \<Rightarrow> headers0)
         else headers0)"

definition request_call :: "env \<Rightarrow> world \<Rightarrow> string \<Rightarrow> RequestInit \<Rightarrow> fetch_call" where
  "request_call e w path options =
     \<lparr>url = API_BASE_URL e @ path,
      init = Some (options\<lparr>headers := Some (request_headers w options)\<rparr>)\<rparr>"

text \<open>Lines 42 to 48: the parsed body, the raw text when parsing throws, \<open>null\<close> when empty.\<close>

definition parse_body :: "platform \<Rightarrow> string \<Rightarrow> jsval" where
  "parse_body P txt =
     (if txt \<noteq> []
      then (case JSON_parse P txt of
              Some v \<Rightarrow> v
            | None \<Rightarrow> if txt \<noteq> [] then JStr txt else JNull)
      else JNull)"

text \<open>
  Lines 57 to 59, the value of \<open>message\<close>:
  \<open>(data && (data.detail || data.message)) || `Request failed with status ...`\<close>.
\<close>

definition message_value :: "jsval \<Rightarrow> nat \<Rightarrow> jsval" where
  "message_value d st =
     (let m = (if truthy d
               then js_or (get_prop d ''detail'') (get_prop d ''message'')
               else Some d)
      in case m of
           Some v \<Rightarrow> if truthy v then v
                     else JStr (''Request failed with status '' @ decimal st)
         | None \<Rightarrow> JStr (''Request failed with status '' @ decimal st))"

definition request ::
  "platform \<Rightarrow> env \<Rightarrow> network \<Rightarrow> world \<Rightarrow> string \<Rightarrow> RequestInit \<Rightarrow> world \<times> (thrown + jsval)" where
  "request P e net w path options =
     (case do_fetch net (request_call e w path options) w of
        (w1, Failed err) \<Rightarrow> (w1, Inl (Rejection err))
      | (w1, Responded st b) \<Rightarrow>
          (case b of
             Inl err \<Rightarrow> (w1, Inl (Rejection err))
           | Inr txt \<Rightarrow>
               (let d = parse_body P txt
                in if \<not> ok st
                   then (let w2 = (if st = 401
                                   then w1\<lparr>localStorage :=
                                             removeItem ''authUsername''
                                               (removeItem ''authToken'' (localStorage w1))\<rparr>
                                   else w1)
                         in (w2, Inl (new_ApiError P (message_value d st) st d)))
                   else (w1, Inr d))))"

text \<open>The option objects that \<open>apiGet\<close> and \<open>apiPost\<close> pass; \<open>body\<close> is optional
  (\<open>None\<close> is the omitted argument) and is serialised only when truthy.\<close>

definition GET_options :: RequestInit where
  "GET_options = \<lparr>http_method = Some ''GET'', headers = None, body = None\<rparr>"

definition POST_options :: "platform \<Rightarrow> jsval option \<Rightarrow> RequestInit" where
  "POST_options P b =
     \<lparr>http_method = Some ''POST'', headers = None,
      body = (case b of
                Some v \<Rightarrow> if truthy v then Some (JSON_stringify P v) else None
              | None \<Rightarrow> None)\<rparr>"

definition apiGet ::
  "platform \<Rightarrow> env \<Rightarrow> network \<Rightarrow> world \<Rightarrow> string \<Rightarrow> world \<times> (thrown + jsval)" where
  "apiGet P e net w path = request P e net w path GET_options"

definition apiPost ::
  "platform \<Rightarrow> env \<Rightarrow> network \<Rightarrow> world \<Rightarrow> string \<Rightarrow> jsval option \<Rightarrow> world \<times> (thrown + jsval)" where
  "apiPost P e net w path b = request P e net w path (POST_options P b)"

section \<open>The pages that call their services directly\<close>

text \<open>
  Of each handler the model keeps the guards that decide whether a request is issued,
  the arguments given to \<open>fetch\<close>, and the reload after a successful creation. The view
  state the handlers set (lists, flags, messages) is not part of the state here.
\<close>

fun isNaN :: "number \<Rightarrow> bool" where
  "isNaN NaN = True"
| "isNaN n = False"

text \<open>The comparison \<open>n <= 0\<close>; it is false for NaN.\<close>

fun le_zero :: "number \<Rightarrow> bool" where
  "le_zero (Finite q) = (q \<le> 0)"
| "le_zero NegZero = True"
| "le_zero PosInfinity = False"
| "le_zero NegInfinity = True"
| "le_zero NaN = False"

definition json_post :: "string \<Rightarrow> string \<Rightarrow> fetch_call" where
  "json_post u b =
     \<lparr>url = u,
      init = Some \<lparr>http_method = Some ''POST'',
                   headers = Some [''Content-Type'' \<mapsto> ''application/json''],
                   body = Some b\<rparr>\<rparr>"

subsection \<open>src/pages/CatalogPage.tsx\<close>

definition CatalogPage_loadProducts :: "env \<Rightarrow> network \<Rightarrow> world \<Rightarrow> world" where
  "CatalogPage_loadProducts e net w =
     fst (do_fetch net \<lparr>url = CATALOG_BASE_URL e @ ''/products'', init = None\<rparr> w)"

definition CatalogPage_handleCreate ::
  "platform \<Rightarrow> env \<Rightarrow> network \<Rightarrow> string \<Rightarrow> string \<Rightarrow> bool \<Rightarrow> world \<Rightarrow> world" where
  "CatalogPage_handleCreate P e net name price inStock w =
     (if name = [] then w
      else let priceValue = parseFloat P price
           in if isNaN priceValue \<or> le_zero priceValue then w
              else (case do_fetch net
                           (json_post (CATALOG_BASE_URL e @ ''/products'')
                              (JSON_stringify P
                                 (JObj [(''name'', JStr name),
                                        (''price'', JNum priceValue),
                                        (''in_stock'', JBool inStock)]))) w of
                      (w1, Failed err) \<Rightarrow> w1
                    | (w1, Responded st b) \<Rightarrow>
                        if \<not> ok st then w1 else CatalogPage_loadProducts e net w1))"

subsection \<open>src/pages/UsersPage.tsx\<close>

definition UsersPage_loadUsers :: "env \<Rightarrow> network \<Rightarrow> world \<Rightarrow> world" where
  "UsersPage_loadUsers e net w =
     fst (do_fetch net \<lparr>url = USERS_BASE_URL e @ ''/users'', init = None\<rparr> w)"

definition UsersPage_handleCreate ::
  "platform \<Rightarrow> env \<Rightarrow> network \<Rightarrow> string \<Rightarrow> string \<Rightarrow> world \<Rightarrow> world" where
  "UsersPage_handleCreate P e net uname email w =
     (if uname = [] then w
      else (case do_fetch net
                   (json_post (USERS_BASE_URL e @ ''/users'')
                      (JSON_stringify P
                         (JObj [(''username'', JStr uname),
                                (''email'', if email \<noteq> [] then JStr email else JNull)]))) w of
              (w1, Failed err) \<Rightarrow> w1
            | (w1, Responded st b) \<Rightarrow>
                if \<not> ok st then w1 else UsersPage_loadUsers e net w1))"

subsection \<open>src/pages/OrdersPage.tsx\<close>

definition OrdersPage_loadOrders :: "env \<Rightarrow> network \<Rightarrow> world \<Rightarrow> world" where
  "OrdersPage_loadOrders e net w =
     fst (do_fetch net \<lparr>url = ORDERS_BASE_URL e @ ''/orders'', init = None\<rparr> w)"

definition OrdersPage_loadUsers :: "env \<Rightarrow> network \<Rightarrow> world \<Rightarrow> world" where
  "OrdersPage_loadUsers e net w =
     fst (do_fetch net \<lparr>url = USERS_BASE_URL e @ ''/users'', init = None\<rparr> w)"

definition OrdersPage_loadProducts :: "env \<Rightarrow> network \<Rightarrow> world \<Rightarrow> world" where
  "OrdersPage_loadProducts e net w =
     fst (do_fetch net \<lparr>url = CATALOG_BASE_URL e @ ''/products'', init = None\<rparr> w)"

definition OrdersPage_handleCreate ::
  "platform \<Rightarrow> env \<Rightarrow> network \<Rightarrow> string \<Rightarrow> string \<Rightarrow> string \<Rightarrow> world \<Rightarrow> world" where
  "OrdersPage_handleCreate P e net userId productId quantity w =
     (if userId = [] then w
      else if productId = [] then w
      else let userIdNum = parseInt10 P userId;
               productIdNum = parseInt10 P productId;
               qtyNum = parseInt10 P quantity
           in if isNaN qtyNum \<or> le_zero qtyNum then w
              else (case do_fetch net
                           (json_post (ORDERS_BASE_URL e @ ''/orders'')
                              (JSON_stringify P
                                 (JObj [(''user_id'', JNum userIdNum),
                                        (''items'',
                                         JArr [JObj [(''product_id'', JNum productIdNum),
                                                     (''quantity'', JNum qtyNum)]])]))) w of
                      (w1, Failed err) \<Rightarrow> w1
                    | (w1, Responded st b) \<Rightarrow>
                        if \<not> ok st then w1 else OrdersPage_loadOrders e net w1))"

section \<open>Observations on issued requests\<close>

text \<open>The value of header \<open>k\<close> in the arguments given to \<open>fetch\<close>, if any.\<close>

definition header_of :: "fetch_call \<Rightarrow> string \<Rightarrow> string option" where
  "header_of c k =
     (case init c of
        None \<Rightarrow> None
      | Some i \<Rightarrow> (case headers i of None \<Rightarrow> None | Some h \<Rightarrow> h k))"

text \<open>The requests issued between state \<open>w\<close> and a later state \<open>w'\<close>.\<close>

definition issued :: "world \<Rightarrow> world \<Rightarrow> fetch_call list" where
  "issued w w' = drop (length (sent w)) (sent w')"

definition Authorization_of :: "fetch_call \<Rightarrow> string option" where
  "Authorization_of c = header_of c ''Authorization''"

definition has_Authorization :: "fetch_call \<Rightarrow> bool" where
  "has_Authorization c = (header_of c ''Authorization'' \<noteq> None)"

fun no_Authorization :: "fetch_call list \<Rightarrow> bool" where
  "no_Authorization [] = True"
| "no_Authorization (c # cs) = (header_of c ''Authorization'' = None \<and> no_Authorization cs)"

text \<open>The message a caller reads from the outcome of a call, when the call failed.\<close>

fun failure_message :: "thrown + jsval \<Rightarrow> string option" where
  "failure_message (Inl t) = Some (thrown_message t)"
| "failure_message (Inr v) = None"

section \<open>Scenario data\<close>

text \<open>
  Concrete inputs for the scenarios of the specification. The platform instance knows
  \<open>JSON.parse\<close> on the response bodies used below and reports a syntax error on any
  other text; its other functions are given on the scenario values only. In the two
  \<open>unread\<close> networks the response arrives and reading its body fails.
\<close>

definition scenario_parse :: "string \<Rightarrow> jsval option" where
  \<open>scenario_parse =
     map_of
       [(''{"detail":"expired"}'', JObj [(''detail'', JStr ''expired'')]),
        (''{"detail":""}'', JObj [(''detail'', JStr [])]),
        (''{"detail":{"toString":"x"}}'',
         JObj [(''detail'', JObj [(''toString'', JStr ''x'')])]),
        (''{"id":7,"username":"bob","email":null}'',
         JObj [(''id'', JNum (Finite 7)), (''username'', JStr ''bob''), (''email'', JNull)])]\<close>

definition scenario_stringify :: "jsval \<Rightarrow> string" where
  \<open>scenario_stringify v =
     (case map_of
        [(JObj [(''username'', JStr ''bob''), (''email'', JNull)],
          ''{"username":"bob","email":null}''),
         (JObj [(''id'', JNum (Finite 7)), (''username'', JStr ''bob''), (''email'', JNull)],
          ''{"id":7,"username":"bob","email":null}''),
         (JObj [(''name'', JStr ''tea''), (''price'', JNum (Finite (5 / 2))),
                (''in_stock'', JBool True)],
          ''{"name":"tea","price":2.5,"in_stock":true}''),
         (JObj [(''user_id'', JNum (Finite 1)),
                (''items'', JArr [JObj [(''product_id'', JNum (Finite 2)),
                                        (''quantity'', JNum (Finite 1))]])],
          ''{"user_id":1,"items":[{"product_id":2,"quantity":1}]}'')] v of
        Some s \<Rightarrow> s
      | None \<Rightarrow> ''{}'')\<close>

definition scenario_platform :: platform where
  \<open>scenario_platform =
     \<lparr>JSON_parse = scenario_parse,
      JSON_stringify = scenario_stringify,
      Number_toString =
        (\<lambda>n. if n = Finite 1 then ''1'' else if n = Finite 2 then ''2''
             else if n = Finite 7 then ''7'' else if n = Finite (5 / 2) then ''2.5''
             else ''NaN''),
      conversion_TypeError =
        JsError ''TypeError'' ''Cannot convert object to primitive value'',
      parseFloat = (\<lambda>s. if s = ''2.5'' then Finite (5 / 2) else NaN),
      parseInt10 = (\<lambda>s. if s = ''1'' then Finite 1 else if s = ''2'' then Finite 2 else NaN)\<rparr>\<close>

definition alice_world :: world where
  "alice_world =
     \<lparr>localStorage = [''authToken'' \<mapsto> ''abc123'', ''authUsername'' \<mapsto> ''alice''],
      sent = []\<rparr>"

definition admin_world :: world where
  "admin_world =
     \<lparr>localStorage = [''authToken'' \<mapsto> ''abc123'', ''authUsername'' \<mapsto> ''alice'',
                      ''authRole'' \<mapsto> ''admin''],
      sent = []\<rparr>"

definition empty_token_world :: world where
  "empty_token_world = \<lparr>localStorage = [''authToken'' \<mapsto> []], sent = []\<rparr>"

definition anonymous_world :: world where
  "anonymous_world = \<lparr>localStorage = Map.empty, sent = []\<rparr>"

definition expired_network :: network where
  \<open>expired_network = (\<lambda>c. Responded 401 (Inr ''{"detail":"expired"}''))\<close>

definition unreachable_network :: network where
  "unreachable_network = (\<lambda>c. Failed (JsError ''TypeError'' ''Failed to fetch''))"

definition created_network :: network where
  \<open>created_network =
     (\<lambda>c. Responded 201 (Inr ''{"id":7,"username":"bob","email":null}''))\<close>

definition empty_detail_network :: network where
  \<open>empty_detail_network = (\<lambda>c. Responded 400 (Inr ''{"detail":""}''))\<close>

definition not_found_network :: network where
  "not_found_network = (\<lambda>c. Responded 404 (Inr ''Not Found''))"

definition no_content_network :: network where
  "no_content_network = (\<lambda>c. Responded 204 (Inr []))"

definition unconvertible_network :: network where
  \<open>unconvertible_network = (\<lambda>c. Responded 400 (Inr ''{"detail":{"toString":"x"}}''))\<close>

definition unread_401_network :: network where
  "unread_401_network =
     (\<lambda>c. Responded 401 (Inl (JsError ''TypeError'' ''Failed to fetch'')))"

definition unread_500_network :: network where
  "unread_500_network =
     (\<lambda>c. Responded 500 (Inl (JsError ''TypeError'' ''Failed to fetch'')))"

section \<open>Properties\<close>

subsection \<open>What one call of request does, by kind of outcome\<close>

lemma request_failed:
  "net (request_call e w path options) = Failed err \<Longrightarrow>
   request P e net w path options =
     (w\<lparr>sent := sent w @ [request_call e w path options]\<rparr>, Inl (Rejection err))"
  by (simp add: request_def do_fetch_def)

lemma request_unread:
  "net (request_call e w path options) = Responded st (Inl err) \<Longrightarrow>
   request P e net w path options =
     (w\<lparr>sent := sent w @ [request_call e w path options]\<rparr>, Inl (Rejection err))"
  by (simp add: request_def do_fetch_def)

lemma request_success:
  "net (request_call e w path options) = Responded st (Inr txt) \<Longrightarrow> ok st \<Longrightarrow>
   request P e net w path options =
     (w\<lparr>sent := sent w @ [request_call e w path options]\<rparr>, Inr (parse_body P txt))"
  by (simp add: request_def do_fetch_def)

lemma request_unauthorized:
  "net (request_call e w path options) = Responded 401 (Inr txt) \<Longrightarrow>
   request P e net w path options =
     (w\<lparr>sent := sent w @ [request_call e w path options],
        localStorage := removeItem ''authUsername'' (removeItem ''authToken'' (localStorage w))\<rparr>,
      Inl (new_ApiError P (message_value (parse_body P txt) 401) 401 (parse_body P txt)))"
  by (simp add: request_def do_fetch_def ok_def Let_def)

lemma request_other_failure:
  "net (request_call e w path options) = Responded st (Inr txt) \<Longrightarrow> \<not> ok st \<Longrightarrow>
   st \<noteq> 401 \<Longrightarrow>
   request P e net w path options =
     (w\<lparr>sent := sent w @ [request_call e w path options]\<rparr>,
      Inl (new_ApiError P (message_value (parse_body P txt) st) st (parse_body P txt)))"
  by (simp add: request_def do_fetch_def Let_def)

lemma request_http_failure:
  "net (request_call e w path options) = Responded st (Inr txt) \<Longrightarrow> \<not> ok st \<Longrightarrow>
   snd (request P e net w path options) =
     Inl (new_ApiError P (message_value (parse_body P txt) st) st (parse_body P txt))"
  by (simp add: request_def do_fetch_def Let_def)

lemma request_keeps_storage:
  "net (request_call e w path options) = Responded st b \<Longrightarrow> st \<noteq> 401 \<Longrightarrow>
   localStorage (fst (request P e net w path options)) = localStorage w"
  by (cases b) (simp_all add: request_def do_fetch_def Let_def)

lemma request_issues_one:
  "issued w (fst (request P e net w path options)) = [request_call e w path options]"
proof (cases "net (request_call e w path options)")
  case (Failed err)
  then show ?thesis
    by (simp add: request_failed issued_def)
next
  case (Responded st b)
  then show ?thesis
    by (cases b) (simp_all add: request_def do_fetch_def issued_def Let_def)
qed

lemma message_value_detail:
  "get_prop d ''detail'' = Some (JStr x) \<Longrightarrow> x \<noteq> [] \<Longrightarrow> message_value d st = JStr x"
  by (cases d) (simp_all add: message_value_def js_or_def)

lemma message_value_synthesized:
  "get_prop d ''detail'' = None \<Longrightarrow> get_prop d ''message'' = None \<Longrightarrow>
   message_value d st = JStr (''Request failed with status '' @ decimal st)"
  by (simp add: message_value_def js_or_def)

lemma new_ApiError_string:
  "new_ApiError P (JStr s) st d = ApiError_thrown \<lparr>message = s, status = st, data = d\<rparr>"
  by (simp add: new_ApiError_def)

lemma new_ApiError_converted:
  "ToString P m = Inr s \<Longrightarrow>
   new_ApiError P m st d = ApiError_thrown \<lparr>message = s, status = st, data = d\<rparr>"
  by (simp add: new_ApiError_def)

lemma new_ApiError_unconverted:
  "ToString P m = Inl err \<Longrightarrow> new_ApiError P m st d = Conversion_error err"
  by (simp add: new_ApiError_def)

lemma authorization_header:
  "header_of (request_call e w path options) ''Authorization'' =
     (case getAuthToken w of
        Some t \<Rightarrow>
          if t \<noteq> [] then Some (''Bearer '' @ t)
          else (case headers options of Some h \<Rightarrow> h ''Authorization'' | None \<Rightarrow> None)
      | None \<Rightarrow> (case headers options of Some h \<Rightarrow> h ''Authorization'' | None \<Rightarrow> None))"
  by (cases "getAuthToken w")
     (simp_all add: header_of_def request_call_def request_headers_def map_add_def
        split: option.splits)

lemma apiGet_issues:
  "issued w (fst (apiGet P e net w path)) = [request_call e w path GET_options]"
  by (simp add: apiGet_def request_issues_one)

lemma scenario_parse_expired:
  \<open>JSON_parse scenario_platform ''{"detail":"expired"}'' =
     Some (JObj [(''detail'', JStr ''expired'')])\<close>
  by (simp add: scenario_platform_def scenario_parse_def)

lemma scenario_body_not_found:
  "parse_body scenario_platform ''Not Found'' = JStr ''Not Found''"
  by (simp add: parse_body_def scenario_platform_def scenario_parse_def)

lemma scenario_body_unconvertible:
  \<open>parse_body scenario_platform ''{"detail":{"toString":"x"}}'' =
     JObj [(''detail'', JObj [(''toString'', JStr ''x'')])]\<close>
  by (simp add: parse_body_def scenario_platform_def scenario_parse_def)

lemma scenario_message_not_found:
  "message_value (JStr ''Not Found'') 404 = JStr ''Request failed with status 404''"
  by (simp add: message_value_def js_or_def decimal.simps digit_char_def)

lemma scenario_message_unconvertible:
  "message_value (JObj [(''detail'', JObj [(''toString'', JStr ''x'')])]) 400 =
     JObj [(''toString'', JStr ''x'')]"
  by (simp add: message_value_def js_or_def)

lemma scenario_conversion_TypeError:
  "conversion_TypeError scenario_platform =
     JsError ''TypeError'' ''Cannot convert object to primitive value''"
  by (simp add: scenario_platform_def)

subsection \<open>Session expiry\<close>

text \<open>
  C1, as the code has it. Whatever was stored before, a call of \<open>request\<close> (so of
  \<open>apiGet\<close> and \<open>apiPost\<close>, which are \<open>request\<close> at their options) that receives a
  response of status 401 and reads its body leaves no token in storage. In the scenario
  (token \<open>abc123\<close> stored, a GET answered 401 with body \<open>{"detail":"expired"}\<close>) the gate
  held before the call, no token is stored after it, and the failure's message is
  \<open>expired\<close>.
\<close>

theorem unauthorized_clears_token:
  \<open>(net (request_call e w path options) = Responded 401 (Inr txt) \<longrightarrow>
      getAuthToken (fst (request P e net w path options)) = None \<and>
      token (useAuth (fst (request P e net w path options))) = None \<and>
      \<not> isAuthenticated (useAuth (fst (request P e net w path options)))) \<and>
    (getAuthToken w = Some ''abc123'' \<longrightarrow>
     JSON_parse P ''{"detail":"expired"}'' = Some (JObj [(''detail'', JStr ''expired'')]) \<longrightarrow>
     net (request_call e w path GET_options) = Responded 401 (Inr ''{"detail":"expired"}'') \<longrightarrow>
       isAuthenticated (useAuth w) \<and>
       getAuthToken (fst (apiGet P e net w path)) = None \<and>
       failure_message (snd (apiGet P e net w path)) = Some ''expired'')\<close>
proof (intro conjI impI)
  assume r: "net (request_call e w path options) = Responded 401 (Inr txt)"
  note u = request_unauthorized [of "net" "e" "w" "path" "options" "txt" "P", OF r]
  show "getAuthToken (fst (request P e net w path options)) = None"
    by (simp add: u getAuthToken_def getItem_def removeItem_def)
  show "token (useAuth (fst (request P e net w path options))) = None"
    by (simp add: u useAuth_def getItem_def removeItem_def)
  show "\<not> isAuthenticated (useAuth (fst (request P e net w path options)))"
    by (simp add: u useAuth_def getItem_def removeItem_def)
next
  assume t: "getAuthToken w = Some ''abc123''"
  then show "isAuthenticated (useAuth w)"
    by (simp add: useAuth_def getAuthToken_def)
next
  assume r: \<open>net (request_call e w path GET_options) =
      Responded 401 (Inr ''{"detail":"expired"}'')\<close>
  show "getAuthToken (fst (apiGet P e net w path)) = None"
    using request_unauthorized [of "net" "e" "w" "path" "GET_options" _ "P", OF r]
    by (simp add: apiGet_def getAuthToken_def getItem_def removeItem_def)
next
  assume p: \<open>JSON_parse P ''{"detail":"expired"}'' = Some (JObj [(''detail'', JStr ''expired'')])\<close>
    and r: \<open>net (request_call e w path GET_options) =
      Responded 401 (Inr ''{"detail":"expired"}'')\<close>
  have "message_value (JObj [(''detail'', JStr ''expired'')]) 401 = JStr ''expired''"
    by (rule message_value_detail) simp_all
  with p show "failure_message (snd (apiGet P e net w path)) = Some ''expired''"
    using request_unauthorized [of "net" "e" "w" "path" "GET_options" _ "P", OF r]
    by (simp add: apiGet_def parse_body_def new_ApiError_string)
qed

theorem unauthorized_clears_token_witness:
  \<open>expired_network (request_call Map.empty alice_world ''/summary'' GET_options) =
      Responded 401 (Inr ''{"detail":"expired"}'') \<and>
    getAuthToken alice_world = Some ''abc123'' \<and>
    isAuthenticated (useAuth alice_world) \<and>
    getAuthToken
      (fst (apiGet scenario_platform Map.empty expired_network alice_world ''/summary'')) = None \<and>
    failure_message
      (snd (apiGet scenario_platform Map.empty expired_network alice_world ''/summary'')) =
      Some ''expired''\<close>
proof -
  have r: \<open>expired_network (request_call Map.empty alice_world ''/summary'' GET_options) =
      Responded 401 (Inr ''{"detail":"expired"}'')\<close>
    by (simp add: expired_network_def)
  have t: "getAuthToken alice_world = Some ''abc123''"
    by (simp add: getAuthToken_def getItem_def alice_world_def)
  show ?thesis
    using r t scenario_parse_expired
      unauthorized_clears_token [of expired_network Map.empty alice_world "''/summary''"
        GET_options _ scenario_platform]
    by simp
qed

text \<open>
  C1 as stated fails: when the response has status 401 and reading its body fails,
  \<open>request\<close> is left before the status is looked at, and the stored token stays.
\<close>

theorem unread_body_keeps_token:
  "unread_401_network (request_call Map.empty alice_world ''/summary'' GET_options) =
     Responded 401 (Inl (JsError ''TypeError'' ''Failed to fetch'')) \<and>
   getAuthToken
     (fst (apiGet scenario_platform Map.empty unread_401_network alice_world ''/summary'')) =
     Some ''abc123'' \<and>
   snd (apiGet scenario_platform Map.empty unread_401_network alice_world ''/summary'') =
     Inl (Rejection (JsError ''TypeError'' ''Failed to fetch''))"
  by (simp add: apiGet_def request_def do_fetch_def unread_401_network_def getAuthToken_def
        getItem_def alice_world_def)

subsection \<open>Failure shapes\<close>

text \<open>
  C2, as the code has it. A response with a non-2xx status whose body is read surfaces
  as an \<open>ApiError\<close> carrying message, status and data when the message taken from the
  body converts to a string; when the conversion throws, the TypeError raised inside
  the constructor surfaces instead. A transport failure (\<open>fetch\<close> rejects, or reading the
  body rejects) surfaces as that rejection, unchanged. Neither of the last two is an
  \<open>ApiError\<close>, and neither carries a status or data.
\<close>

theorem failure_shapes:
  "(net (request_call e w path options) = Responded st (Inr txt) \<longrightarrow> \<not> ok st \<longrightarrow>
    ToString P (message_value (parse_body P txt) st) = Inr m \<longrightarrow>
      snd (request P e net w path options) =
        Inl (ApiError_thrown \<lparr>message = m, status = st, data = parse_body P txt\<rparr>)) \<and>
   (net (request_call e w path options) = Responded st (Inr txt) \<longrightarrow> \<not> ok st \<longrightarrow>
    ToString P (message_value (parse_body P txt) st) = Inl cerr \<longrightarrow>
      snd (request P e net w path options) = Inl (Conversion_error cerr) \<and>
      \<not> is_ApiError (Conversion_error cerr) \<and>
      thrown_status (Conversion_error cerr) = None \<and>
      thrown_data (Conversion_error cerr) = None) \<and>
   (net (request_call e w path options) = Failed err \<or>
    net (request_call e w path options) = Responded st (Inl err) \<longrightarrow>
      snd (request P e net w path options) = Inl (Rejection err) \<and>
      \<not> is_ApiError (Rejection err) \<and>
      thrown_status (Rejection err) = None \<and>
      thrown_data (Rejection err) = None)"
proof (intro conjI impI)
  assume r: "net (request_call e w path options) = Responded st (Inr txt)" and n: "\<not> ok st"
    and c: "ToString P (message_value (parse_body P txt) st) = Inr m"
  show "snd (request P e net w path options) =
      Inl (ApiError_thrown \<lparr>message = m, status = st, data = parse_body P txt\<rparr>)"
    using request_http_failure [of "net" "e" "w" "path" "options" "st" "txt" "P", OF r n]
    by (simp add: new_ApiError_converted [OF c])
next
  assume r: "net (request_call e w path options) = Responded st (Inr txt)" and n: "\<not> ok st"
    and c: "ToString P (message_value (parse_body P txt) st) = Inl cerr"
  show "snd (request P e net w path options) = Inl (Conversion_error cerr)"
    using request_http_failure [of "net" "e" "w" "path" "options" "st" "txt" "P", OF r n]
    by (simp add: new_ApiError_unconverted [OF c])
next
  assume "net (request_call e w path options) = Failed err \<or>
      net (request_call e w path options) = Responded st (Inl err)"
  then show "snd (request P e net w path options) = Inl (Rejection err)"
    by (auto simp add: request_failed request_unread)
qed simp_all

theorem failure_shapes_witness:
  \<open>not_found_network (request_call Map.empty alice_world ''/health'' GET_options) =
     Responded 404 (Inr ''Not Found'') \<and>
   \<not> ok 404 \<and>
   ToString scenario_platform (message_value (parse_body scenario_platform ''Not Found'') 404) =
     Inr ''Request failed with status 404'' \<and>
   snd (request scenario_platform Map.empty not_found_network alice_world ''/health''
          GET_options) =
     Inl (ApiError_thrown
            \<lparr>message = ''Request failed with status 404'', status = 404,
             data = JStr ''Not Found''\<rparr>) \<and>
   unconvertible_network (request_call Map.empty alice_world ''/health'' GET_options) =
     Responded 400 (Inr ''{"detail":{"toString":"x"}}'') \<and>
   \<not> ok 400 \<and>
   ToString scenario_platform
     (message_value (parse_body scenario_platform ''{"detail":{"toString":"x"}}'') 400) =
     Inl (JsError ''TypeError'' ''Cannot convert object to primitive value'') \<and>
   snd (request scenario_platform Map.empty unconvertible_network alice_world ''/health''
          GET_options) =
     Inl (Conversion_error
            (JsError ''TypeError'' ''Cannot convert object to primitive value'')) \<and>
   unreachable_network (request_call Map.empty alice_world ''/health'' GET_options) =
     Failed (JsError ''TypeError'' ''Failed to fetch'') \<and>
   snd (request scenario_platform Map.empty unreachable_network alice_world ''/health''
          GET_options) =
     Inl (Rejection (JsError ''TypeError'' ''Failed to fetch'')) \<and>
   unread_500_network (request_call Map.empty alice_world ''/health'' GET_options) =
     Responded 500 (Inl (JsError ''TypeError'' ''Failed to fetch'')) \<and>
   snd (request scenario_platform Map.empty unread_500_network alice_world ''/health''
          GET_options) =
     Inl (Rejection (JsError ''TypeError'' ''Failed to fetch''))\<close>
proof -
  have h: "not_found_network (request_call Map.empty alice_world ''/health'' GET_options) =
      Responded 404 (Inr ''Not Found'')"
    by (simp add: not_found_network_def)
  have n: "\<not> ok 404"
    by (simp add: ok_def)
  have m: "ToString scenario_platform
      (message_value (parse_body scenario_platform ''Not Found'') 404) =
      Inr ''Request failed with status 404''"
    by (simp add: scenario_body_not_found scenario_message_not_found)
  have h2: \<open>unconvertible_network (request_call Map.empty alice_world ''/health'' GET_options) =
      Responded 400 (Inr ''{"detail":{"toString":"x"}}'')\<close>
    by (simp add: unconvertible_network_def)
  have n2: "\<not> ok 400"
    by (simp add: ok_def)
  have m2: \<open>ToString scenario_platform
      (message_value (parse_body scenario_platform ''{"detail":{"toString":"x"}}'') 400) =
      Inl (JsError ''TypeError'' ''Cannot convert object to primitive value'')\<close>
    by (simp add: scenario_body_unconvertible scenario_message_unconvertible
          scenario_conversion_TypeError)
  have u: "unreachable_network (request_call Map.empty alice_world ''/health'' GET_options) =
      Failed (JsError ''TypeError'' ''Failed to fetch'')"
    by (simp add: unreachable_network_def)
  have b: "unread_500_network (request_call Map.empty alice_world ''/health'' GET_options) =
      Responded 500 (Inl (JsError ''TypeError'' ''Failed to fetch''))"
    by (simp add: unread_500_network_def)
  show ?thesis
    using h n m h2 n2 m2 u b scenario_body_not_found
      failure_shapes [of not_found_network Map.empty alice_world "''/health''" GET_options
        404 "''Not Found''" scenario_platform "''Request failed with status 404''"]
      failure_shapes [of unconvertible_network Map.empty alice_world "''/health''" GET_options
        400 _ scenario_platform _
        "JsError ''TypeError'' ''Cannot convert object to primitive value''"]
      failure_shapes [of unreachable_network Map.empty alice_world "''/health''" GET_options
        _ _ scenario_platform _ _ "JsError ''TypeError'' ''Failed to fetch''"]
      failure_shapes [of unread_500_network Map.empty alice_world "''/health''" GET_options
        500 _ scenario_platform _ _ "JsError ''TypeError'' ''Failed to fetch''"]
    by simp
qed

text \<open>
  C2 as stated fails: when the network is unreachable, \<open>apiGet\<close> throws the rejection of
  \<open>fetch\<close>, which is not an \<open>ApiError\<close> and has no status.
\<close>

theorem transport_failure_not_ApiError:
  "snd (apiGet scenario_platform Map.empty unreachable_network alice_world ''/health'') =
     Inl (Rejection (JsError ''TypeError'' ''Failed to fetch'')) \<and>
   is_ApiError (Rejection (JsError ''TypeError'' ''Failed to fetch'')) = False \<and>
   thrown_status (Rejection (JsError ''TypeError'' ''Failed to fetch'')) = None"
  by (simp add: apiGet_def request_def do_fetch_def unreachable_network_def)

text \<open>
  C3. On the stored session \<open>authToken\<close>, \<open>authUsername\<close>, \<open>authRole = admin\<close>, a GET
  answered 401 removes the token and the username but leaves the role in storage, where
  \<open>logout\<close> removes all three.
\<close>

theorem unauthorized_leaves_role:
  "getItem (localStorage
      (fst (apiGet scenario_platform Map.empty expired_network admin_world ''/summary'')))
      ''authRole'' = Some ''admin'' \<and>
   role (useAuth
      (fst (apiGet scenario_platform Map.empty expired_network admin_world ''/summary''))) =
      ''admin'' \<and>
   getItem (localStorage
      (fst (apiGet scenario_platform Map.empty expired_network admin_world ''/summary'')))
      ''authToken'' = None \<and>
   getItem (localStorage
      (fst (apiGet scenario_platform Map.empty expired_network admin_world ''/summary'')))
      ''authUsername'' = None \<and>
   getItem (localStorage (logout admin_world)) ''authRole'' = None"
  by (simp add: apiGet_def request_def do_fetch_def expired_network_def ok_def Let_def
        admin_world_def getItem_def removeItem_def useAuth_def logout_def)

text \<open>
  C8, as the code has it. A response whose status is outside 200 to 299 and is not 401
  leaves the storage, and so the three session slots, as they were, whether or not its
  body can be read. When the body is read and the message taken from it converts to a
  string, the failure is an \<open>ApiError\<close> with the status and that message: the body's
  \<open>detail\<close> when it is a non-empty string, the synthesized text when the body has
  neither \<open>detail\<close> nor \<open>message\<close>.
\<close>

theorem other_failure_keeps_session:
  "net (request_call e w path options) = Responded st b \<Longrightarrow> \<not> ok st \<Longrightarrow> st \<noteq> 401 \<Longrightarrow>
     localStorage (fst (request P e net w path options)) = localStorage w \<and>
     useAuth (fst (request P e net w path options)) = useAuth w \<and>
     (b = Inr txt \<longrightarrow> ToString P (message_value (parse_body P txt) st) = Inr m \<longrightarrow>
        snd (request P e net w path options) =
          Inl (ApiError_thrown \<lparr>message = m, status = st, data = parse_body P txt\<rparr>)) \<and>
     (b = Inr txt \<longrightarrow> get_prop (parse_body P txt) ''detail'' = Some (JStr x) \<longrightarrow> x \<noteq> [] \<longrightarrow>
        snd (request P e net w path options) =
          Inl (ApiError_thrown \<lparr>message = x, status = st, data = parse_body P txt\<rparr>)) \<and>
     (b = Inr txt \<longrightarrow> get_prop (parse_body P txt) ''detail'' = None \<longrightarrow>
      get_prop (parse_body P txt) ''message'' = None \<longrightarrow>
        snd (request P e net w path options) =
          Inl (ApiError_thrown
                 \<lparr>message = ''Request failed with status '' @ decimal st, status = st,
                  data = parse_body P txt\<rparr>))"
proof (intro conjI impI)
  assume r: "net (request_call e w path options) = Responded st b" and s: "st \<noteq> 401"
  show k: "localStorage (fst (request P e net w path options)) = localStorage w"
    using r s by (rule request_keeps_storage)
  show "useAuth (fst (request P e net w path options)) = useAuth w"
    by (simp add: useAuth_def k)
next
  assume r: "net (request_call e w path options) = Responded st b" and n: "\<not> ok st"
    and b: "b = Inr txt"
  note f = request_http_failure [of "net" "e" "w" "path" "options" "st" "txt" "P",
      OF r [unfolded b] n]
  {
    assume "ToString P (message_value (parse_body P txt) st) = Inr m"
    then show "snd (request P e net w path options) =
        Inl (ApiError_thrown \<lparr>message = m, status = st, data = parse_body P txt\<rparr>)"
      by (simp add: f new_ApiError_converted)
  }
  {
    assume "get_prop (parse_body P txt) ''detail'' = Some (JStr x)" and "x \<noteq> []"
    then have "message_value (parse_body P txt) st = JStr x"
      by (rule message_value_detail)
    then show "snd (request P e net w path options) =
        Inl (ApiError_thrown \<lparr>message = x, status = st, data = parse_body P txt\<rparr>)"
      by (simp add: f new_ApiError_string)
  }
  {
    assume "get_prop (parse_body P txt) ''detail'' = None"
      and "get_prop (parse_body P txt) ''message'' = None"
    then have "message_value (parse_body P txt) st =
        JStr (''Request failed with status '' @ decimal st)"
      by (rule message_value_synthesized)
    then show "snd (request P e net w path options) =
        Inl (ApiError_thrown
               \<lparr>message = ''Request failed with status '' @ decimal st, status = st,
                data = parse_body P txt\<rparr>)"
      by (simp add: f new_ApiError_string)
  }
qed

theorem other_failure_keeps_session_witness:
  "not_found_network (request_call Map.empty admin_world ''/summary'' GET_options) =
     Responded 404 (Inr ''Not Found'') \<and>
   \<not> ok 404 \<and> (404::nat) \<noteq> 401 \<and>
   get_prop (parse_body scenario_platform ''Not Found'') ''detail'' = None \<and>
   get_prop (parse_body scenario_platform ''Not Found'') ''message'' = None \<and>
   localStorage
     (fst (request scenario_platform Map.empty not_found_network admin_world ''/summary''
             GET_options)) = localStorage admin_world \<and>
   getItem (localStorage
     (fst (request scenario_platform Map.empty not_found_network admin_world ''/summary''
             GET_options))) ''authToken'' = Some ''abc123'' \<and>
   getItem (localStorage
     (fst (request scenario_platform Map.empty not_found_network admin_world ''/summary''
             GET_options))) ''authRole'' = Some ''admin'' \<and>
   snd (request scenario_platform Map.empty not_found_network admin_world ''/summary''
          GET_options) =
     Inl (ApiError_thrown
            \<lparr>message = ''Request failed with status 404'', status = 404,
             data = JStr ''Not Found''\<rparr>)"
proof -
  have h: "not_found_network (request_call Map.empty admin_world ''/summary'' GET_options) =
      Responded 404 (Inr ''Not Found'')"
    by (simp add: not_found_network_def)
  have n: "\<not> ok 404"
    by (simp add: ok_def)
  have s: "(404::nat) \<noteq> 401"
    by simp
  have t: "getItem (localStorage admin_world) ''authToken'' = Some ''abc123''"
    by (simp add: admin_world_def getItem_def)
  have r: "getItem (localStorage admin_world) ''authRole'' = Some ''admin''"
    by (simp add: admin_world_def getItem_def)
  have d: "decimal 404 = ''404''"
    by (simp add: decimal.simps digit_char_def)
  show ?thesis
    using h n t r d scenario_body_not_found
      other_failure_keeps_session [of not_found_network Map.empty admin_world "''/summary''"
        GET_options 404 "Inr ''Not Found''" scenario_platform "''Not Found''", OF h n s]
    by simp
qed

text \<open>
  C8 as stated fails: for status 400 and body \<open>{"detail":{"toString":"x"}}\<close> the storage
  is unchanged, but what surfaces is the TypeError raised inside the constructor, which
  carries no status.
\<close>

theorem unconvertible_detail_no_status:
  \<open>unconvertible_network (request_call Map.empty alice_world ''/users'' GET_options) =
     Responded 400 (Inr ''{"detail":{"toString":"x"}}'') \<and>
   snd (apiGet scenario_platform Map.empty unconvertible_network alice_world ''/users'') =
     Inl (Conversion_error
            (JsError ''TypeError'' ''Cannot convert object to primitive value'')) \<and>
   thrown_status
     (Conversion_error (JsError ''TypeError'' ''Cannot convert object to primitive value'')) =
     None \<and>
   localStorage
     (fst (apiGet scenario_platform Map.empty unconvertible_network alice_world ''/users'')) =
     localStorage alice_world\<close>
proof -
  have r: \<open>unconvertible_network (request_call Map.empty alice_world ''/users'' GET_options) =
      Responded 400 (Inr ''{"detail":{"toString":"x"}}'')\<close>
    by (simp add: unconvertible_network_def)
  have n: "\<not> ok 400"
    by (simp add: ok_def)
  have s: "(400::nat) \<noteq> 401"
    by simp
  show ?thesis
    using r
      request_other_failure [of unconvertible_network Map.empty alice_world "''/users''"
        GET_options 400 _ scenario_platform, OF r n s]
    by (simp add: apiGet_def scenario_body_unconvertible scenario_message_unconvertible
          new_ApiError_def scenario_conversion_TypeError)
qed

subsection \<open>Logout\<close>

text \<open>
  C9. From any state, \<open>logout\<close> twice gives the state \<open>logout\<close> once gives: no token,
  no username, no stored role, so the role reads as the default \<open>user\<close>.
\<close>

theorem logout_idempotent:
  "logout (logout w) = logout w \<and>
   token (useAuth (logout w)) = None \<and>
   username (useAuth (logout w)) = None \<and>
   getItem (localStorage (logout w)) ''authRole'' = None \<and>
   role (useAuth (logout w)) = ''user'' \<and>
   \<not> isAuthenticated (useAuth (logout w))"
  by (simp add: logout_def useAuth_def getItem_def removeItem_def)

subsection \<open>Credential injection\<close>

lemma apiPost_issues:
  "issued w (fst (apiPost P e net w path b)) = [request_call e w path (POST_options P b)]"
  by (simp add: apiPost_def request_issues_one)

lemma Authorization_of_GET:
  "Authorization_of (request_call e w path GET_options) =
     (case getAuthToken w of
        Some t \<Rightarrow> if t \<noteq> [] then Some (''Bearer '' @ t) else None
      | None \<Rightarrow> None)"
  by (cases "getAuthToken w")
     (simp_all add: Authorization_of_def authorization_header GET_options_def)

lemma Authorization_of_POST:
  "Authorization_of (request_call e w path (POST_options P b)) =
     (case getAuthToken w of
        Some t \<Rightarrow> if t \<noteq> [] then Some (''Bearer '' @ t) else None
      | None \<Rightarrow> None)"
  by (cases "getAuthToken w")
     (simp_all add: Authorization_of_def authorization_header POST_options_def)

text \<open>
  C4, as the code has it. A call of \<open>apiGet\<close> or \<open>apiPost\<close> hands exactly one request to
  \<open>fetch\<close>. While a non-empty token \<open>t\<close> is stored, its \<open>Authorization\<close> header is
  \<open>Bearer\<close> followed by \<open>t\<close>; while no token is stored, or the stored token is the empty
  string, it has no \<open>Authorization\<close> header.
\<close>

theorem bearer_header_when_token:
  "(getAuthToken w = Some t \<longrightarrow> t \<noteq> [] \<longrightarrow>
      map Authorization_of (issued w (fst (apiGet P e net w path))) =
        [Some (''Bearer '' @ t)] \<and>
      map Authorization_of (issued w (fst (apiPost P e net w path b))) =
        [Some (''Bearer '' @ t)]) \<and>
   (getAuthToken w = None \<or> getAuthToken w = Some [] \<longrightarrow>
      map Authorization_of (issued w (fst (apiGet P e net w path))) = [None] \<and>
      map Authorization_of (issued w (fst (apiPost P e net w path b))) = [None])"
  by (auto simp add: apiGet_issues apiPost_issues Authorization_of_GET Authorization_of_POST)

theorem bearer_header_when_token_witness:
  "getAuthToken alice_world = Some ''abc123'' \<and> ''abc123'' \<noteq> [] \<and>
   map Authorization_of
     (issued alice_world
        (fst (apiGet scenario_platform Map.empty created_network alice_world ''/summary''))) =
     [Some ''Bearer abc123''] \<and>
   getAuthToken anonymous_world = None \<and>
   map Authorization_of
     (issued anonymous_world
        (fst (apiPost scenario_platform Map.empty created_network anonymous_world ''/users''
                (Some (JObj [(''username'', JStr ''bob''), (''email'', JNull)]))))) =
     [None]"
proof -
  have t: "getAuthToken alice_world = Some ''abc123''"
    by (simp add: getAuthToken_def getItem_def alice_world_def)
  have a: "getAuthToken anonymous_world = None"
    by (simp add: getAuthToken_def getItem_def anonymous_world_def)
  show ?thesis
    using t a
      bearer_header_when_token [of alice_world "''abc123''" scenario_platform Map.empty
        created_network "''/summary''" None]
      bearer_header_when_token [of anonymous_world "[]" scenario_platform Map.empty
        created_network "''/users''"
        "Some (JObj [(''username'', JStr ''bob''), (''email'', JNull)])"]
    by simp
qed

text \<open>
  C4 as stated fails for the token that is the empty string: it is stored, and the
  request carries no \<open>Authorization\<close> header, where the claim asks for \<open>Bearer\<close>
  followed by the token.
\<close>

theorem empty_token_no_header:
  "getAuthToken empty_token_world = Some [] \<and>
   map Authorization_of
     (issued empty_token_world
        (fst (apiGet scenario_platform Map.empty created_network empty_token_world
                ''/summary''))) = [None] \<and>
   [None] \<noteq> [Some (''Bearer '' @ [])]"
  by (simp add: apiGet_issues Authorization_of_GET getAuthToken_def getItem_def
        empty_token_world_def)

text \<open>
  C10. In every state the gate and the client agree: \<open>isAuthenticated\<close> holds exactly
  when the one request that \<open>apiGet\<close> or \<open>apiPost\<close> issues in that state has an
  \<open>Authorization\<close> header. When the stored token is the empty string, the gate is false
  and no header is attached.
\<close>

theorem gate_agrees_with_client:
  "map has_Authorization (issued w (fst (apiGet P e net w path))) =
     [isAuthenticated (useAuth w)] \<and>
   map has_Authorization (issued w (fst (apiPost P e net w path b))) =
     [isAuthenticated (useAuth w)] \<and>
   (getItem (localStorage w) ''authToken'' = Some [] \<longrightarrow>
      \<not> isAuthenticated (useAuth w) \<and>
      map Authorization_of (issued w (fst (apiGet P e net w path))) = [None] \<and>
      map Authorization_of (issued w (fst (apiPost P e net w path b))) = [None])"
proof -
  have g: "has_Authorization (request_call e w path GET_options) = isAuthenticated (useAuth w)"
    by (cases "getItem (localStorage w) ''authToken''")
       (simp_all add: has_Authorization_def authorization_header GET_options_def useAuth_def
          getAuthToken_def)
  have p: "has_Authorization (request_call e w path (POST_options P b)) =
      isAuthenticated (useAuth w)"
    by (cases "getItem (localStorage w) ''authToken''")
       (simp_all add: has_Authorization_def authorization_header POST_options_def useAuth_def
          getAuthToken_def)
  show ?thesis
    by (simp add: apiGet_issues apiPost_issues g p Authorization_of_GET Authorization_of_POST
          getAuthToken_def useAuth_def)
qed

theorem gate_agrees_with_client_witness:
  "getItem (localStorage empty_token_world) ''authToken'' = Some [] \<and>
   \<not> isAuthenticated (useAuth empty_token_world) \<and>
   map has_Authorization
     (issued empty_token_world
        (fst (apiGet scenario_platform Map.empty created_network empty_token_world
                ''/summary''))) = [False] \<and>
   map Authorization_of
     (issued empty_token_world
        (fst (apiGet scenario_platform Map.empty created_network empty_token_world
                ''/summary''))) = [None] \<and>
   isAuthenticated (useAuth alice_world) \<and>
   map has_Authorization
     (issued alice_world
        (fst (apiGet scenario_platform Map.empty created_network alice_world
                ''/summary''))) = [True]"
proof -
  have t: "getItem (localStorage empty_token_world) ''authToken'' = Some []"
    by (simp add: getItem_def empty_token_world_def)
  have a: "isAuthenticated (useAuth alice_world)"
    by (simp add: useAuth_def getItem_def alice_world_def)
  show ?thesis
    using t a
      gate_agrees_with_client [of empty_token_world scenario_platform Map.empty
        created_network "''/summary''" None]
      gate_agrees_with_client [of alice_world scenario_platform Map.empty
        created_network "''/summary''" None]
    by simp
qed

subsection \<open>Failure messages\<close>

text \<open>
  C5, as the code has it. For a response with a status outside 200 to 299: when the
  parsed body is an object whose \<open>detail\<close> is a non-empty string, that string is the
  failure's message; when the parsed body has neither \<open>detail\<close> nor \<open>message\<close>, the
  message is \<open>Request failed with status\<close> followed by the status in decimal.
\<close>

theorem failure_message_rule:
  "net (request_call e w path options) = Responded st (Inr txt) \<Longrightarrow> \<not> ok st \<Longrightarrow>
     (parse_body P txt = JObj kvs \<longrightarrow> map_of kvs ''detail'' = Some (JStr x) \<longrightarrow> x \<noteq> [] \<longrightarrow>
        failure_message (snd (request P e net w path options)) = Some x) \<and>
     (get_prop (parse_body P txt) ''detail'' = None \<longrightarrow>
      get_prop (parse_body P txt) ''message'' = None \<longrightarrow>
        failure_message (snd (request P e net w path options)) =
          Some (''Request failed with status '' @ decimal st))"
proof (intro conjI impI)
  assume r: "net (request_call e w path options) = Responded st (Inr txt)"
    and n: "\<not> ok st"
  note f = request_http_failure [of "net" "e" "w" "path" "options" "st" "txt" "P", OF r n]
  {
    assume "parse_body P txt = JObj kvs" and "map_of kvs ''detail'' = Some (JStr x)"
      and "x \<noteq> []"
    then have "message_value (parse_body P txt) st = JStr x"
      by (simp add: message_value_detail)
    then show "failure_message (snd (request P e net w path options)) = Some x"
      by (simp add: f new_ApiError_string)
  }
  {
    assume "get_prop (parse_body P txt) ''detail'' = None"
      and "get_prop (parse_body P txt) ''message'' = None"
    then have "message_value (parse_body P txt) st =
        JStr (''Request failed with status '' @ decimal st)"
      by (rule message_value_synthesized)
    then show "failure_message (snd (request P e net w path options)) =
        Some (''Request failed with status '' @ decimal st)"
      by (simp add: f new_ApiError_string)
  }
qed

theorem failure_message_rule_witness:
  \<open>expired_network (request_call Map.empty alice_world ''/summary'' GET_options) =
      Responded 401 (Inr ''{"detail":"expired"}'') \<and>
    \<not> ok 401 \<and>
    parse_body scenario_platform ''{"detail":"expired"}'' =
      JObj [(''detail'', JStr ''expired'')] \<and>
    failure_message
      (snd (request scenario_platform Map.empty expired_network alice_world ''/summary''
              GET_options)) = Some ''expired'' \<and>
    not_found_network (request_call Map.empty alice_world ''/summary'' GET_options) =
      Responded 404 (Inr ''Not Found'') \<and>
    \<not> ok 404 \<and>
    get_prop (parse_body scenario_platform ''Not Found'') ''detail'' = None \<and>
    get_prop (parse_body scenario_platform ''Not Found'') ''message'' = None \<and>
    failure_message
      (snd (request scenario_platform Map.empty not_found_network alice_world ''/summary''
              GET_options)) = Some ''Request failed with status 404''\<close>
proof -
  have r1: \<open>expired_network (request_call Map.empty alice_world ''/summary'' GET_options) =
      Responded 401 (Inr ''{"detail":"expired"}'')\<close>
    by (simp add: expired_network_def)
  have n1: "\<not> ok 401"
    by (simp add: ok_def)
  have p1: \<open>parse_body scenario_platform ''{"detail":"expired"}'' =
      JObj [(''detail'', JStr ''expired'')]\<close>
    by (simp add: parse_body_def scenario_parse_expired)
  have r2: "not_found_network (request_call Map.empty alice_world ''/summary'' GET_options) =
      Responded 404 (Inr ''Not Found'')"
    by (simp add: not_found_network_def)
  have n2: "\<not> ok 404"
    by (simp add: ok_def)
  have p2: "parse_body scenario_platform ''Not Found'' = JStr ''Not Found''"
    by (simp add: parse_body_def scenario_platform_def scenario_parse_def)
  have d: "decimal 404 = ''404''"
    by (simp add: decimal.simps digit_char_def)
  show ?thesis
    using r1 n1 p1 r2 n2 p2 d
      failure_message_rule [of expired_network Map.empty alice_world "''/summary''"
        GET_options 401 _ scenario_platform "[(''detail'', JStr ''expired'')]" "''expired''",
        OF r1 n1]
      failure_message_rule [of not_found_network Map.empty alice_world "''/summary''"
        GET_options 404 _ scenario_platform, OF r2 n2]
    by simp
qed

text \<open>
  C5 as stated fails when \<open>detail\<close> is the empty string: for status 400 and body
  \<open>{"detail":""}\<close> the message is the synthesized one, not the value of \<open>detail\<close>.
\<close>

theorem empty_detail_message:
  \<open>snd (apiGet scenario_platform Map.empty empty_detail_network alice_world ''/users'') =
     Inl (ApiError_thrown
            \<lparr>message = ''Request failed with status 400'', status = 400,
             data = JObj [(''detail'', JStr [])]\<rparr>) \<and>
   get_prop (JObj [(''detail'', JStr [])]) ''detail'' = Some (JStr []) \<and>
   ''Request failed with status 400'' \<noteq> []\<close>
proof -
  have r: \<open>empty_detail_network (request_call Map.empty alice_world ''/users'' GET_options) =
      Responded 400 (Inr ''{"detail":""}'')\<close>
    by (simp add: empty_detail_network_def)
  have n: "\<not> ok 400"
    by (simp add: ok_def)
  have p: \<open>parse_body scenario_platform ''{"detail":""}'' = JObj [(''detail'', JStr [])]\<close>
    by (simp add: parse_body_def scenario_platform_def scenario_parse_def)
  have m: "message_value (JObj [(''detail'', JStr [])]) 400 =
      JStr ''Request failed with status 400''"
    by (simp add: message_value_def js_or_def decimal.simps digit_char_def)
  show ?thesis
    using request_http_failure [of empty_detail_network Map.empty alice_world "''/users''"
        GET_options 400 _ scenario_platform, OF r n] p m
    by (simp add: apiGet_def new_ApiError_string)
qed

subsection \<open>Success values\<close>

text \<open>
  C6. For a response with a status in 200 to 299: a non-empty body that \<open>JSON.parse\<close>
  accepts gives the parsed value as the success value; so a body that is the
  serialisation of a value \<open>x\<close> which \<open>JSON.parse\<close> reads back as \<open>x\<close> gives \<open>x\<close>; and an
  empty body gives \<open>null\<close>.
\<close>

theorem success_value_is_parsed_body:
  "net (request_call e w path options) = Responded st (Inr txt) \<Longrightarrow> ok st \<Longrightarrow>
     (txt \<noteq> [] \<longrightarrow> JSON_parse P txt = Some v \<longrightarrow>
        snd (request P e net w path options) = Inr v) \<and>
     (txt = JSON_stringify P x \<longrightarrow> JSON_stringify P x \<noteq> [] \<longrightarrow>
      JSON_parse P (JSON_stringify P x) = Some x \<longrightarrow>
        snd (request P e net w path options) = Inr x) \<and>
     (txt = [] \<longrightarrow> snd (request P e net w path options) = Inr JNull)"
  by (simp add: request_success parse_body_def)

theorem success_value_is_parsed_body_witness:
  \<open>created_network
      (request_call Map.empty alice_world ''/users''
         (POST_options scenario_platform
            (Some (JObj [(''username'', JStr ''bob''), (''email'', JNull)])))) =
      Responded 201 (Inr ''{"id":7,"username":"bob","email":null}'') \<and>
    ok 201 \<and>
    JSON_parse scenario_platform ''{"id":7,"username":"bob","email":null}'' =
      Some (JObj [(''id'', JNum (Finite 7)), (''username'', JStr ''bob''), (''email'', JNull)]) \<and>
    JSON_stringify scenario_platform
      (JObj [(''id'', JNum (Finite 7)), (''username'', JStr ''bob''), (''email'', JNull)]) =
      ''{"id":7,"username":"bob","email":null}'' \<and>
    snd (apiPost scenario_platform Map.empty created_network alice_world ''/users''
           (Some (JObj [(''username'', JStr ''bob''), (''email'', JNull)]))) =
      Inr (JObj [(''id'', JNum (Finite 7)), (''username'', JStr ''bob''), (''email'', JNull)]) \<and>
    no_content_network (request_call Map.empty alice_world ''/users'' GET_options) =
      Responded 204 (Inr []) \<and>
    ok 204 \<and>
    snd (apiGet scenario_platform Map.empty no_content_network alice_world ''/users'') =
      Inr JNull\<close>
proof -
  have r1: \<open>created_network
      (request_call Map.empty alice_world ''/users''
         (POST_options scenario_platform
            (Some (JObj [(''username'', JStr ''bob''), (''email'', JNull)])))) =
      Responded 201 (Inr ''{"id":7,"username":"bob","email":null}'')\<close>
    by (simp add: created_network_def)
  have k1: "ok 201"
    by (simp add: ok_def)
  have p: \<open>JSON_parse scenario_platform ''{"id":7,"username":"bob","email":null}'' =
      Some (JObj [(''id'', JNum (Finite 7)), (''username'', JStr ''bob''), (''email'', JNull)])\<close>
    by (simp add: scenario_platform_def scenario_parse_def)
  have s: \<open>JSON_stringify scenario_platform
      (JObj [(''id'', JNum (Finite 7)), (''username'', JStr ''bob''), (''email'', JNull)]) =
      ''{"id":7,"username":"bob","email":null}''\<close>
    by (simp add: scenario_platform_def scenario_stringify_def)
  have r2: "no_content_network (request_call Map.empty alice_world ''/users'' GET_options) =
      Responded 204 (Inr [])"
    by (simp add: no_content_network_def)
  have k2: "ok 204"
    by (simp add: ok_def)
  show ?thesis
    using r1 k1 p s r2 k2
      success_value_is_parsed_body [of created_network Map.empty alice_world "''/users''"
        "POST_options scenario_platform
           (Some (JObj [(''username'', JStr ''bob''), (''email'', JNull)]))"
        201 _ scenario_platform
        "JObj [(''id'', JNum (Finite 7)), (''username'', JStr ''bob''), (''email'', JNull)]"
        "JObj [(''id'', JNum (Finite 7)), (''username'', JStr ''bob''), (''email'', JNull)]",
        OF r1 k1]
      success_value_is_parsed_body [of no_content_network Map.empty alice_world "''/users''"
        GET_options 204 _ scenario_platform, OF r2 k2]
    by (simp add: apiPost_def apiGet_def)
qed

subsection \<open>Direct calls\<close>

lemma issued_do_fetch:
  "issued w (fst (do_fetch net c w)) = [c]"
  by (simp add: issued_def do_fetch_def)

lemma header_of_no_init:
  "header_of \<lparr>url = u, init = None\<rparr> k = None"
  by (simp add: header_of_def)

lemma header_of_json_post:
  "header_of (json_post u b) ''Authorization'' = None"
  by (simp add: header_of_def json_post_def)

lemma CatalogPage_handleCreate_issued:
  "no_Authorization (issued w (CatalogPage_handleCreate P e net name price inStock w))"
  by (simp add: CatalogPage_handleCreate_def CatalogPage_loadProducts_def Let_def
        do_fetch_def issued_def header_of_no_init header_of_json_post
        split: fetch_outcome.split)

lemma UsersPage_handleCreate_issued:
  "no_Authorization (issued w (UsersPage_handleCreate P e net uname email w))"
  by (simp add: UsersPage_handleCreate_def UsersPage_loadUsers_def Let_def
        do_fetch_def issued_def header_of_no_init header_of_json_post
        split: fetch_outcome.split)

lemma OrdersPage_handleCreate_issued:
  "no_Authorization (issued w (OrdersPage_handleCreate P e net userId productId quantity w))"
  by (simp add: OrdersPage_handleCreate_def OrdersPage_loadOrders_def Let_def
        do_fetch_def issued_def header_of_no_init header_of_json_post
        split: fetch_outcome.split)

text \<open>
  C7. Whatever the storage holds, no request that the catalog, users and orders pages
  hand to \<open>fetch\<close> (the list loads and the creation posts, with the reload that follows
  a successful creation) has an \<open>Authorization\<close> header.
\<close>

theorem direct_calls_carry_no_Authorization:
  "no_Authorization (issued w (CatalogPage_loadProducts e net w)) \<and>
   no_Authorization (issued w (CatalogPage_handleCreate P e net name price inStock w)) \<and>
   no_Authorization (issued w (UsersPage_loadUsers e net w)) \<and>
   no_Authorization (issued w (UsersPage_handleCreate P e net uname email w)) \<and>
   no_Authorization (issued w (OrdersPage_loadOrders e net w)) \<and>
   no_Authorization (issued w (OrdersPage_loadUsers e net w)) \<and>
   no_Authorization (issued w (OrdersPage_loadProducts e net w)) \<and>
   no_Authorization (issued w (OrdersPage_handleCreate P e net userId productId quantity w))"
  by (simp add: CatalogPage_handleCreate_issued UsersPage_handleCreate_issued
        OrdersPage_handleCreate_issued CatalogPage_loadProducts_def UsersPage_loadUsers_def
        OrdersPage_loadOrders_def OrdersPage_loadUsers_def OrdersPage_loadProducts_def
        issued_do_fetch header_of_no_init)

theorem direct_calls_carry_no_Authorization_witness:
  \<open>getAuthToken alice_world = Some ''abc123'' \<and>
   issued alice_world
     (CatalogPage_handleCreate scenario_platform Map.empty created_network
        ''tea'' ''2.5'' True alice_world) =
     [json_post ''http://localhost:8003/products''
        ''{"name":"tea","price":2.5,"in_stock":true}'',
      \<lparr>url = ''http://localhost:8003/products'', init = None\<rparr>] \<and>
   no_Authorization
     (issued alice_world
        (CatalogPage_handleCreate scenario_platform Map.empty created_network
           ''tea'' ''2.5'' True alice_world)) \<and>
   issued alice_world
     (OrdersPage_handleCreate scenario_platform Map.empty not_found_network
        ''1'' ''2'' ''1'' alice_world) =
     [json_post ''http://localhost:8004/orders''
        ''{"user_id":1,"items":[{"product_id":2,"quantity":1}]}''] \<and>
   no_Authorization
     (issued alice_world
        (OrdersPage_handleCreate scenario_platform Map.empty not_found_network
           ''1'' ''2'' ''1'' alice_world)) \<and>
   map Authorization_of
     (issued alice_world
        (fst (apiGet scenario_platform Map.empty created_network alice_world ''/summary''))) =
     [Some ''Bearer abc123'']\<close>
proof -
  have t: "getAuthToken alice_world = Some ''abc123''"
    by (simp add: getAuthToken_def getItem_def alice_world_def)
  have c: \<open>issued alice_world
     (CatalogPage_handleCreate scenario_platform Map.empty created_network
        ''tea'' ''2.5'' True alice_world) =
     [json_post ''http://localhost:8003/products''
        ''{"name":"tea","price":2.5,"in_stock":true}'',
      \<lparr>url = ''http://localhost:8003/products'', init = None\<rparr>]\<close>
    by (simp add: CatalogPage_handleCreate_def CatalogPage_loadProducts_def Let_def
          do_fetch_def issued_def scenario_platform_def scenario_stringify_def
          created_network_def ok_def
          CATALOG_BASE_URL_def env_or_def alice_world_def)
  have o: \<open>issued alice_world
     (OrdersPage_handleCreate scenario_platform Map.empty not_found_network
        ''1'' ''2'' ''1'' alice_world) =
     [json_post ''http://localhost:8004/orders''
        ''{"user_id":1,"items":[{"product_id":2,"quantity":1}]}'']\<close>
    by (simp add: OrdersPage_handleCreate_def OrdersPage_loadOrders_def Let_def
          do_fetch_def issued_def scenario_platform_def scenario_stringify_def
          not_found_network_def ok_def
          ORDERS_BASE_URL_def env_or_def alice_world_def)
  have a: "map Authorization_of
     (issued alice_world
        (fst (apiGet scenario_platform Map.empty created_network alice_world ''/summary''))) =
     [Some ''Bearer abc123'']"
    by (simp add: apiGet_issues Authorization_of_GET t)
  show ?thesis
    using t c o a
      direct_calls_carry_no_Authorization [of alice_world Map.empty created_network
        scenario_platform "''tea''" "''2.5''" True "''bob''" "[]" "''1''" "''2''" "''1''"]
      direct_calls_carry_no_Authorization [of alice_world Map.empty not_found_network
        scenario_platform "''tea''" "''2.5''" True "''bob''" "[]" "''1''" "''2''" "''1''"]
    by simp
qed

end
